theory Spec2Isabelle
  imports Complex_Main "HOL-Library.Signed_Division"
begin

section \<open>JavaScript values the card scripts handle\<close>

text \<open>
  The two scripts \<^verbatim>\<open>scripts/github-cards.mjs\<close> and \<^verbatim>\<open>scripts/wakatime-cards.mjs\<close>
  work on JavaScript numbers and strings. Numbers are modelled as \<^typ>\<open>real\<close> (the
  idealisation of IEEE doubles: no rounding error, no NaN, no infinities), integer-valued
  layout quantities as \<^typ>\<open>int\<close>, strings as \<^typ>\<open>string\<close> (one \<^typ>\<open>char\<close> per
  code unit). A text field that the caller may leave out is a \<open>jsval\<close>.
\<close>

datatype jsval = JUndefined | JNull | JString string

text \<open>\<^verbatim>\<open>String(v)\<close> on a text value.\<close>

fun toJsString :: "jsval \<Rightarrow> string" where
  "toJsString JUndefined = ''undefined''"
| "toJsString JNull = ''null''"
| "toJsString (JString s) = s"

text \<open>\<^verbatim>\<open>v ?? ""\<close>: only \<^verbatim>\<open>null\<close> and \<^verbatim>\<open>undefined\<close> are replaced.\<close>

fun nullishEmpty :: "jsval \<Rightarrow> jsval" where
  "nullishEmpty JUndefined = JString []"
| "nullishEmpty JNull = JString []"
| "nullishEmpty (JString s) = JString s"

text \<open>\<^verbatim>\<open>v || d\<close> on a text value: \<^verbatim>\<open>undefined\<close>, \<^verbatim>\<open>null\<close> and \<^verbatim>\<open>""\<close> are falsy.\<close>

fun textOr :: "jsval \<Rightarrow> jsval \<Rightarrow> jsval" where
  "textOr JUndefined d = d"
| "textOr JNull d = d"
| "textOr (JString s) d = (if s = [] then d else JString s)"

text \<open>\<^verbatim>\<open>Number(x || 0)\<close> and \<^verbatim>\<open>x || 0\<close> on a numeric field that may be missing.\<close>

fun numOrZero :: "real option \<Rightarrow> real" where
  "numOrZero None = 0"
| "numOrZero (Some x) = x"

text \<open>
  The number-to-string conversions of the language (\<^verbatim>\<open>Number::toString\<close> on a
  non-integer, \<^verbatim>\<open>toFixed\<close>, \<^verbatim>\<open>toLocaleString("en-US")\<close>) are built-ins, not code of
  the repository: the functions that call them take them as a parameter.
\<close>

record builtins =
  numberToString :: "real \<Rightarrow> string"
  toFixed :: "real \<Rightarrow> nat \<Rightarrow> string"
  toLocaleString :: "real \<Rightarrow> string"

text \<open>An integer-valued number in a template literal prints in decimal.\<close>

definition digitChar :: "nat \<Rightarrow> char" where
  "digitChar d = ''0123456789'' ! d"

fun showNat :: "nat \<Rightarrow> string" where
  "showNat n = (if n < 10 then [digitChar n] else showNat (n div 10) @ [digitChar (n mod 10)])"

declare showNat.simps [simp del]

definition showInt :: "int \<Rightarrow> string" where
  "showInt k = (if k < 0 then CHR ''-'' # showNat (nat (- k)) else showNat (nat k))"

text \<open>\<^verbatim>\<open>s.replace(/c/g, t)\<close> for a one-character pattern, and \<^verbatim>\<open>xs.join(sep)\<close>.\<close>

definition replaceAll :: "char \<Rightarrow> string \<Rightarrow> string \<Rightarrow> string" where
  "replaceAll c t s = concat (map (\<lambda>x. if x = c then t else [x]) s)"

fun join :: "string \<Rightarrow> string list \<Rightarrow> string" where
  "join sep [] = []"
| "join sep [x] = x"
| "join sep (x # y # ys) = x @ sep @ join sep (y # ys)"

section \<open>scripts/github-cards.mjs\<close>

subsection \<open>Theme and escaping\<close>

text \<open>
  The theme of each script; its fields \<^verbatim>\<open>title\<close> and \<^verbatim>\<open>text\<close> are \<open>titleColor\<close> and
  \<open>textColor\<close> here.
\<close>

record themeBase =
  bg1 :: string
  bg2 :: string
  titleColor :: string
  textColor :: string
  muted :: string
  barBg :: string
  bars :: "string list"

record themeGithub = themeBase +
  stroke :: string
  accent :: string

definition theme :: themeGithub where
  "theme = \<lparr> bg1 = ''#0B1220'', bg2 = ''#111827'', titleColor = ''#E5E7EB'',
     textColor = ''#E5E7EB'', muted = ''#94A3B8'', barBg = ''#1F2937'',
     bars = [''#0EA5E9'', ''#22C55E'', ''#A78BFA'', ''#F59E0B'', ''#38BDF8'', ''#14B8A6'', ''#EAB308''],
     stroke = ''#334155'', accent = ''#0EA5E9'' \<rparr>"

definition escapeXml :: "jsval \<Rightarrow> string" where
  "escapeXml str =
     replaceAll (CHR 0x27) ''&apos;''
       (replaceAll (CHR 0x22) ''&quot;''
         (replaceAll CHR ''>'' ''&gt;''
           (replaceAll CHR ''<'' ''&lt;''
             (replaceAll CHR ''&'' ''&amp;'' (toJsString (nullishEmpty str))))))"


definition humanBytes :: "builtins \<Rightarrow> real \<Rightarrow> string" where
  "humanBytes B bytes =
     (let b = bytes; mb = 1024 * 1024; kb = 1024 in
      if b \<ge> mb then toFixed B (b / mb) 1 @ '' MB''
      else if b \<ge> kb then toFixed B (b / kb) 1 @ '' KB''
      else numberToString B b @ '' B'')"

subsection \<open>computeGrade\<close>

record contrib =
  commits :: real
  prs :: real
  issues :: real
  reviews :: real


record grade =
  score :: real
  pct :: int
  letter :: string








subsection \<open>Layout constants\<close>

text \<open>
  The render functions of both scripts declare the same local layout constants with the
  same values; only the header height differs (\<^verbatim>\<open>headerH = 124\<close> in
  \<^verbatim>\<open>github-cards.mjs\<close>, \<^verbatim>\<open>112\<close> in \<^verbatim>\<open>wakatime-cards.mjs\<close>).
\<close>

definition width :: int where "width = 900"
definition padding :: int where "padding = 28"
definition headerH :: int where "headerH = 124"
definition rowH :: int where "rowH = 34"
definition rankW :: int where "rankW = 46"
definition nameX :: int where "nameX = padding + rankW"
definition barX :: int where "barX = 380"
definition pctColW :: int where "pctColW = 82"
definition barW :: int where "barW = width - barX - padding - pctColW"
definition barH :: int where "barH = 10"

subsection \<open>Rows, items and the shared markup\<close>

record rowBase =
  name :: jsval
  percent :: real

record metricRow = rowBase +
  valueText :: jsval




definition svgDefs :: string where
  \<open>svgDefs = concat
      [''\<newline>'',
       ''  <defs>\<newline>'',
       ''    <linearGradient id="bgGrad" x1="0" y1="0" x2="1" y2="1">\<newline>'',
       ''      <stop offset="0%" stop-color="'', bg1 theme, ''"/>\<newline>'',
       ''      <stop offset="100%" stop-color="'', bg2 theme, ''"/>\<newline>'',
       ''    </linearGradient>\<newline>'',
       ''\<newline>'',
       ''    <filter id="shadow" x="-20%" y="-20%" width="140%" height="140%">\<newline>'',
       ''      <feDropShadow dx="0" dy="10" stdDeviation="18" flood-color="#000000" flood-opacity="0.35"/>\<newline>'',
       ''    </filter>\<newline>'',
       ''\<newline>'',
       ''    <filter id="barGlow" x="-20%" y="-50%" width="140%" height="200%">\<newline>'',
       ''      <feDropShadow dx="0" dy="0" stdDeviation="2" flood-color="#ffffff" flood-opacity="0.06"/>\<newline>'',
       ''      <feDropShadow dx="0" dy="4" stdDeviation="6" flood-color="#000000" flood-opacity="0.22"/>\<newline>'',
       ''    </filter>\<newline>'',
       ''  </defs>\<newline>'']\<close>

definition baseCard :: "int \<Rightarrow> int \<Rightarrow> string" where
  \<open>baseCard wd ht = concat
      [''<rect x="0" y="0" width="'', showInt wd, ''" height="'', showInt ht, ''" rx="18" ry="18" fill="url(#bgGrad)" filter="url(#shadow)" />'']\<close>

subsection \<open>renderGridStatsCard\<close>







subsection \<open>renderBarsCard\<close>

definition barsColor :: "nat \<Rightarrow> string" where
  "barsColor i = bars theme ! (i mod length (bars theme))"

definition barsFillW :: "metricRow \<Rightarrow> int" where
  "barsFillW r = (let pct = max 0 (min 1 (percent r / 100)) in round (real_of_int barW * pct))"

definition barsRowPieces :: "builtins \<Rightarrow> nat \<Rightarrow> metricRow \<Rightarrow> string list" where
  \<open>barsRowPieces B i r =
     (let y = headerH + int i * rowH;
          color = barsColor i;
          fillW = barsFillW r;
          dotCx = padding + 28;
          dotCy = y - 6
      in
      [''\<newline>'',
       ''        <circle cx="'', showInt dotCx, ''" cy="'', showInt dotCy, ''" r="5" fill="'', color, ''" opacity="0.95"/>\<newline>'',
       ''        <text x="'', showInt padding, ''" y="'', showInt y, ''" fill="'', muted theme, ''" font-size="12" font-weight="750"\<newline>'',
       ''              font-family="ui-sans-serif, system-ui">#'', showInt (int i + 1), ''</text>\<newline>'',
       ''\<newline>'',
       ''        <text x="'', showInt nameX, ''" y="'', showInt y, ''" fill="'', textColor theme, ''" font-size="14" font-weight="650"\<newline>'',
       ''              font-family="ui-sans-serif, system-ui">'', escapeXml (name r), ''</text>\<newline>'',
       ''\<newline>'',
       ''        <text x="'', showInt (barX - 16), ''" y="'', showInt y, ''" text-anchor="end" fill="'', muted theme, ''" font-size="13" font-weight="650"\<newline>'',
       ''              font-family="ui-sans-serif, system-ui">'', escapeXml (valueText r), ''</text>\<newline>'',
       ''\<newline>'',
       ''        <rect x="'', showInt barX, ''" y="'', showInt (y - 12), ''" rx="6" ry="6" width="'', showInt barW, ''" height="'', showInt barH, ''" fill="'', barBg theme, ''" opacity="0.95"/>\<newline>'',
       ''        <rect x="'', showInt barX, ''" y="'', showInt (y - 12), ''" rx="6" ry="6" width="'', showInt fillW, ''" height="'', showInt barH, ''" fill="'', color, ''" filter="url(#barGlow)" />\<newline>'',
       ''\<newline>'',
       ''        <text x="'', showInt (width - padding), ''" y="'', showInt y, ''" text-anchor="end" fill="'', muted theme, ''" font-size="13" font-weight="700"\<newline>'',
       ''              font-family="ui-sans-serif, system-ui">'', toFixed B (percent r) 2, ''%</text>\<newline>'',
       ''      ''])\<close>

definition barsRow :: "builtins \<Rightarrow> nat \<Rightarrow> metricRow \<Rightarrow> string" where
  "barsRow B i r = concat (barsRowPieces B i r)"

definition barsDocPieces ::
    "jsval \<Rightarrow> jsval \<Rightarrow> jsval \<Rightarrow> jsval \<Rightarrow> int \<Rightarrow> string \<Rightarrow> string list" where
  \<open>barsDocPieces title subtitleLeft totalText topText height svgRows =
      [''<?xml version="1.0" encoding="UTF-8"?>\<newline>'',
       ''<svg width="'', showInt width, ''" height="'', showInt height, ''" viewBox="0 0 '', showInt width, '' '', showInt height, ''"\<newline>'',
       ''     xmlns="http://www.w3.org/2000/svg" role="img" aria-label="'', escapeXml title, ''">\<newline>'',
       ''  '', svgDefs, ''\<newline>'',
       ''  '', baseCard width height, ''\<newline>'',
       ''\<newline>'',
       ''  <text x="'', showInt padding, ''" y="46" fill="'', titleColor theme, ''" font-size="22" font-weight="900"\<newline>'',
       ''        font-family="ui-sans-serif, system-ui">'', escapeXml title, ''</text>\<newline>'',
       ''\<newline>'',
       ''  <text x="'', showInt padding, ''" y="72" fill="'', muted theme, ''" font-size="12" font-weight="650"\<newline>'',
       ''        font-family="ui-sans-serif, system-ui">'', escapeXml subtitleLeft, ''</text>\<newline>'',
       ''\<newline>'',
       ''  <text x="'', showInt (width - padding), ''" y="46" text-anchor="end" fill="'', textColor theme, ''" font-size="14" font-weight="900"\<newline>'',
       ''        font-family="ui-sans-serif, system-ui">'', escapeXml totalText, ''</text>\<newline>'',
       ''\<newline>'',
       ''  <text x="'', showInt (width - padding), ''" y="72" text-anchor="end" fill="'', muted theme, ''" font-size="12" font-weight="650"\<newline>'',
       ''        font-family="ui-sans-serif, system-ui">'', escapeXml topText, ''</text>\<newline>'',
       ''\<newline>'',
       ''  <line x1="'', showInt padding, ''" y1="98" x2="'', showInt (width - padding), ''" y2="98"\<newline>'',
       ''        stroke="'', stroke theme, ''" stroke-width="1" opacity="0.75" />\<newline>'',
       ''\<newline>'',
       ''  '', svgRows, ''\<newline>'',
       ''</svg>'']\<close>

definition renderBarsCard ::
    "builtins \<Rightarrow> jsval \<Rightarrow> jsval \<Rightarrow> jsval \<Rightarrow> jsval \<Rightarrow> metricRow list \<Rightarrow> string" where
  \<open>renderBarsCard B title subtitleLeft totalText topText rows =
     (let height = headerH + int (length rows) * rowH + 30;
          svgRows = join ''\<newline>'' (map (\<lambda>(i, r). barsRow B i r) (enumerate 0 rows))
      in concat (barsDocPieces title subtitleLeft totalText topText height svgRows))\<close>

subsection \<open>fetchContribSince2021\<close>

text \<open>
  Instants are milliseconds since the epoch, as a \<^verbatim>\<open>Date\<close> holds them.
  \<^verbatim>\<open>Date.UTC(y, 0, 1, 0, 0, 0)\<close> is the language's \<open>TimeFromYear\<close> and
  \<^verbatim>\<open>getUTCFullYear\<close> its \<open>YearFromTime\<close> (the largest year whose start is not
  after the instant), found here by walking from 1970.
\<close>

definition FROM_YEAR :: int where "FROM_YEAR = 2021"

definition msPerDay :: int where "msPerDay = 86400000"

definition DayFromYear :: "int \<Rightarrow> int" where
  "DayFromYear y = 365 * (y - 1970) + (y - 1969) div 4 - (y - 1901) div 100 + (y - 1601) div 400"

definition TimeFromYear :: "int \<Rightarrow> int" where
  "TimeFromYear y = msPerDay * DayFromYear y"

function yearUp :: "int \<Rightarrow> int \<Rightarrow> int" where
  "yearUp y t = (if TimeFromYear (y + 1) \<le> t then yearUp (y + 1) t else y)"
  by pat_completeness auto
termination
proof (relation "measure (\<lambda>(y, t). nat (t + 1 - TimeFromYear (y + 1)))")
  show "wf (measure (\<lambda>(y, t). nat (t + 1 - TimeFromYear (y + 1))))"
    by simp
next
  fix y t :: int
  have step: "TimeFromYear k < TimeFromYear (k + 1)" for k
  proof -
    have a: "(k - 1969) div 4 \<le> (k - 1969 + 1) div 4"
      by (rule zdiv_mono1) simp_all
    have "(k - 1901 + 1) div 100 \<le> (k - 1901 + 100) div 100"
      by (rule zdiv_mono1) simp_all
    then have b: "(k - 1901 + 1) div 100 \<le> (k - 1901) div 100 + 1"
      by simp
    have c: "(k - 1601) div 400 \<le> (k - 1601 + 1) div 400"
      by (rule zdiv_mono1) simp_all
    have lin: "p \<le> p' \<Longrightarrow> q' \<le> q + 1 \<Longrightarrow> r \<le> r' \<Longrightarrow>
        365 * (k - 1970) + p - q + r < 365 * (k + 1 - 1970) + p' - q' + r'"
      for p p' q q' r r' :: int
      by simp
    have e: "k + 1 - 1969 = k - 1969 + 1" "k + 1 - 1901 = k - 1901 + 1"
      "k + 1 - 1601 = k - 1601 + 1"
      by simp_all
    have "DayFromYear k < DayFromYear (k + 1)"
      unfolding DayFromYear_def e by (rule lin [OF a b c])
    then show ?thesis
      by (simp add: TimeFromYear_def msPerDay_def)
  qed
  assume "TimeFromYear (y + 1) \<le> t"
  then show "((y + 1, t), (y, t)) \<in> measure (\<lambda>(y, t). nat (t + 1 - TimeFromYear (y + 1)))"
    using step [of "y + 1"] by simp
qed

function yearDown :: "int \<Rightarrow> int \<Rightarrow> int" where
  "yearDown y t = (if t < TimeFromYear y then yearDown (y - 1) t else y)"
  by pat_completeness auto
termination
proof (relation "measure (\<lambda>(y, t). nat (TimeFromYear y - t))")
  show "wf (measure (\<lambda>(y, t). nat (TimeFromYear y - t)))"
    by simp
next
  fix y t :: int
  have step: "TimeFromYear k < TimeFromYear (k + 1)" for k
  proof -
    have a: "(k - 1969) div 4 \<le> (k - 1969 + 1) div 4"
      by (rule zdiv_mono1) simp_all
    have "(k - 1901 + 1) div 100 \<le> (k - 1901 + 100) div 100"
      by (rule zdiv_mono1) simp_all
    then have b: "(k - 1901 + 1) div 100 \<le> (k - 1901) div 100 + 1"
      by simp
    have c: "(k - 1601) div 400 \<le> (k - 1601 + 1) div 400"
      by (rule zdiv_mono1) simp_all
    have lin: "p \<le> p' \<Longrightarrow> q' \<le> q + 1 \<Longrightarrow> r \<le> r' \<Longrightarrow>
        365 * (k - 1970) + p - q + r < 365 * (k + 1 - 1970) + p' - q' + r'"
      for p p' q q' r r' :: int
      by simp
    have e: "k + 1 - 1969 = k - 1969 + 1" "k + 1 - 1901 = k - 1901 + 1"
      "k + 1 - 1601 = k - 1601 + 1"
      by simp_all
    have "DayFromYear k < DayFromYear (k + 1)"
      unfolding DayFromYear_def e by (rule lin [OF a b c])
    then show ?thesis
      by (simp add: TimeFromYear_def msPerDay_def)
  qed
  assume "t < TimeFromYear y"
  then show "((y - 1, t), (y, t)) \<in> measure (\<lambda>(y, t). nat (TimeFromYear y - t))"
    using step [of "y - 1"] by simp
qed

declare yearUp.simps [simp del] yearDown.simps [simp del]

definition getUTCFullYear :: "int \<Rightarrow> int" where
  "getUTCFullYear t = (if TimeFromYear 1970 \<le> t then yearUp 1970 t else yearDown 1969 t)"

text \<open>
  One answer of the GraphQL query \<^verbatim>\<open>contributionsCollection(from, to)\<close>: the four
  totals, each possibly missing. The service is a parameter \<open>query from to\<close>; \<open>None\<close>
  is the failed request, on which \<^verbatim>\<open>ghGraphQL\<close> ends the process.
\<close>

record contributionsCollection =
  totalCommitContributions :: "real option"
  totalIssueContributions :: "real option"
  totalPullRequestContributions :: "real option"
  totalPullRequestReviewContributions :: "real option"

type_synonym ghQuery = "int \<Rightarrow> int \<Rightarrow> contributionsCollection option"

text \<open>The body of the \<^verbatim>\<open>for\<close> loop: the window of year \<open>y\<close>, and the accumulation.\<close>

definition windowOf :: "int \<Rightarrow> int \<Rightarrow> int \<Rightarrow> int \<times> int" where
  "windowOf now endYear y =
     (TimeFromYear y, if y = endYear then now else TimeFromYear (y + 1))"

definition addContrib :: "contrib \<Rightarrow> contributionsCollection \<Rightarrow> contrib" where
  "addContrib acc c =
     \<lparr> commits = commits acc + numOrZero (totalCommitContributions c),
       prs = prs acc + numOrZero (totalPullRequestContributions c),
       issues = issues acc + numOrZero (totalIssueContributions c),
       reviews = reviews acc + numOrZero (totalPullRequestReviewContributions c) \<rparr>"

function contribLoop :: "ghQuery \<Rightarrow> int \<Rightarrow> int \<Rightarrow> int \<Rightarrow> contrib \<Rightarrow> contrib option" where
  "contribLoop query now endYear y acc =
     (if y \<le> endYear then
        (case query (fst (windowOf now endYear y)) (snd (windowOf now endYear y)) of
           None \<Rightarrow> None
         | Some c \<Rightarrow> contribLoop query now endYear (y + 1) (addContrib acc c))
      else Some acc)"
  by pat_completeness auto
termination
  by (relation "measure (\<lambda>(query, now, endYear, y, acc). nat (endYear + 1 - y))") auto

declare contribLoop.simps [simp del]

definition fetchContribSince2021 :: "ghQuery \<Rightarrow> int \<Rightarrow> contrib option" where
  "fetchContribSince2021 query now =
     (let endYear = getUTCFullYear now
      in contribLoop query now endYear FROM_YEAR
           \<lparr> commits = 0, prs = 0, issues = 0, reviews = 0 \<rparr>)"

subsection \<open>fetchData: the language rows; makeActivityRows\<close>

text \<open>
  \<open>langMap\<close> is the \<^verbatim>\<open>Map\<close> from language name to summed size; its entries are
  listed in insertion order, each name once. \<^verbatim>\<open>sort((a, b) => b[1] - a[1])\<close> is a
  stable sort by descending size.
\<close>

definition langEntries :: "(string \<times> real) list \<Rightarrow> (string \<times> real) list" where
  "langEntries langMap = take 10 (sort_key (\<lambda>e. - snd e) langMap)"

definition langTotalSize :: "(string \<times> real) list \<Rightarrow> real" where
  "langTotalSize es = (let s = foldl (\<lambda>acc e. acc + snd e) 0 es in if s = 0 then 1 else s)"

definition langRows :: "builtins \<Rightarrow> (string \<times> real) list \<Rightarrow> metricRow list" where
  "langRows B langMap =
     (let es = langEntries langMap; total = langTotalSize es
      in map (\<lambda>(nm, size).
           \<lparr> name = JString nm, percent = (size / total) * 100,
             valueText = JString (humanBytes B size) \<rparr>) es)"



section \<open>scripts/wakatime-cards.mjs\<close>




text \<open>\<^verbatim>\<open>mins % 60\<close> is the remainder with the sign of \<open>mins\<close>.\<close>

definition fmtMinutes :: "int \<Rightarrow> string" where
  "fmtMinutes mins =
     (let h = mins div 60; m = mins smod 60 in
      if h \<le> 0 then showInt m @ ''m''
      else if m = 0 then showInt h @ ''h''
      else showInt h @ ''h '' @ showInt m @ ''m'')"

text \<open>One entry of the service's \<^verbatim>\<open>languages\<close>, \<^verbatim>\<open>editors\<close> or \<^verbatim>\<open>operating_systems\<close>
  list (fields \<^verbatim>\<open>name\<close>, \<^verbatim>\<open>text\<close>, \<^verbatim>\<open>total_seconds\<close>, \<^verbatim>\<open>percent\<close>), and a row made of it.\<close>

record wakaEntry =
  entryName :: jsval
  entryText :: jsval
  total_seconds :: "real option"
  entryPercent :: "real option"

record wakaRow = rowBase +
  time :: jsval
  seconds :: real

definition toRows :: "wakaEntry list \<Rightarrow> nat \<Rightarrow> wakaRow list" where
  "toRows list limit =
     map (\<lambda>x. \<lparr> name = entryName x,
                percent = numOrZero (entryPercent x),
                time = textOr (entryText x)
                         (JString (fmtMinutes (round (numOrZero (total_seconds x) / 60)))),
                seconds = numOrZero (total_seconds x) \<rparr>)
       (take limit list)"

subsection \<open>renderSvg\<close>





definition wakaFillW :: "wakaRow \<Rightarrow> int" where
  "wakaFillW r = (let pct = max 0 (min 1 (percent r / 100)) in round (real_of_int barW * pct))"





section \<open>Notions the properties are stated with\<close>





definition descending :: "real list \<Rightarrow> bool" where
  "descending xs = sorted_wrt (\<lambda>a b. a \<ge> b) xs"

text \<open>
  The windows the loop of \<^verbatim>\<open>fetchContribSince2021\<close> queries, in order, and the sum of one
  field of the answers over a list of windows.
\<close>

definition windows :: "int \<Rightarrow> (int \<times> int) list" where
  "windows now = map (windowOf now (getUTCFullYear now)) [FROM_YEAR..getUTCFullYear now]"

definition sumOver ::
    "ghQuery \<Rightarrow> (contributionsCollection \<Rightarrow> real option) \<Rightarrow> (int \<times> int) list \<Rightarrow> real" where
  "sumOver query field ws =
     sum_list (map (\<lambda>(from, to). numOrZero (field (the (query from to)))) ws)"

text \<open>
  An instance of the built-in conversions, to evaluate the functions on concrete inputs:
  \<^verbatim>\<open>toFixed\<close> as the language defines it on the exact value, the other two exact on
  integers (they print the integer part of another number). Every property below holds for
  all built-ins; this instance only closes the examples.
\<close>

definition toFixedRef :: "real \<Rightarrow> nat \<Rightarrow> string" where
  "toFixedRef x f =
     (let s = (if x < 0 then ''-'' else []);
          n = nat \<lfloor>\<bar>x\<bar> * 10 ^ f + 1 / 2\<rfloor>;
          m = showNat n
      in if f = 0 then s @ m
         else (let z = replicate (f + 1 - length m) CHR ''0'' @ m; k = length z - f
               in s @ take k z @ ''.'' @ drop k z))"

fun group3 :: "string \<Rightarrow> string" where
  "group3 (a # b # c # d # ds) = a # b # c # CHR '','' # group3 (d # ds)"
| "group3 ds = ds"

definition toLocaleStringRef :: "real \<Rightarrow> string" where
  "toLocaleStringRef x =
     (let k = \<lfloor>x\<rfloor>
      in (if k < 0 then ''-'' else []) @ rev (group3 (rev (showNat (nat \<bar>k\<bar>)))))"

definition refBuiltins :: builtins where
  "refBuiltins = \<lparr> numberToString = (\<lambda>x. showInt \<lfloor>x\<rfloor>), toFixed = toFixedRef,
     toLocaleString = toLocaleStringRef \<rparr>"


definition elevenLangs :: "(string \<times> real) list" where
  "elevenLangs = [(''A'', 1), (''B'', 1), (''C'', 1), (''D'', 1), (''E'', 1), (''F'', 1),
     (''G'', 1), (''H'', 1), (''I'', 1), (''J'', 1), (''K'', 1)]"

definition twoEntries :: "wakaEntry list" where
  "twoEntries =
     [\<lparr> entryName = JString ''Go'', entryText = JString ''1 sec'',
         total_seconds = Some 1, entryPercent = Some 33.33 \<rparr>,
      \<lparr> entryName = JString ''Rust'', entryText = JString ''2 secs'',
         total_seconds = Some 2, entryPercent = Some 66.67 \<rparr>]"




definition constQuery :: ghQuery where
  "constQuery from to =
     Some \<lparr> totalCommitContributions = Some 10, totalIssueContributions = None,
            totalPullRequestContributions = Some 2,
            totalPullRequestReviewContributions = Some 0 \<rparr>"

definition scenarioC :: "(string \<times> real) list" where
  "scenarioC = [(''C'', 0), (''B'', 100), (''A'', 300)]"



section \<open>Auxiliary facts\<close>

subsection \<open>Escaping\<close>

lemma replaceAll_Nil [simp]: "replaceAll c t [] = []"
  by (simp add: replaceAll_def)

lemma replaceAll_Cons [simp]:
  "replaceAll c t (x # s) = (if x = c then t else [x]) @ replaceAll c t s"
  by (simp add: replaceAll_def)

lemma replaceAll_append [simp]: "replaceAll c t (a @ b) = replaceAll c t a @ replaceAll c t b"
  by (simp add: replaceAll_def)






subsection \<open>Joining rows, and the place of a row's name in a document\<close>




lemma barsFillW_name [simp]: "barsFillW (r\<lparr>name := n\<rparr>) = barsFillW r"
  by (simp add: barsFillW_def)

lemma barsRowPieces_name:
  "barsRowPieces B i (r\<lparr>name := n\<rparr>) =
     take 27 (barsRowPieces B i r) @ escapeXml n # drop 28 (barsRowPieces B i r)"
  by (simp add: barsRowPieces_def Let_def)

lemma barsRow_name:
  "barsRow B i (r\<lparr>name := n\<rparr>) =
     concat (take 27 (barsRowPieces B i r)) @ escapeXml n @
     concat (drop 28 (barsRowPieces B i r))"
  unfolding barsRow_def barsRowPieces_name by simp




lemma wakaFillW_name [simp]: "wakaFillW (r\<lparr>name := n\<rparr>) = wakaFillW r"
  by (simp add: wakaFillW_def)





subsection \<open>The fill width, and where a row shows its colour and its fill width\<close>





subsection \<open>Row derivation\<close>

lemma descending_iff: "descending xs = sorted (map uminus xs)"
  by (simp add: descending_def sorted_wrt_map)

lemma langEntries_length: "length (langEntries m) \<le> 10"
  by (simp add: langEntries_def)

lemma langEntries_descending: "descending (map snd (langEntries m))"
proof -
  have "sorted (map (\<lambda>e. - snd e) (sort_key (\<lambda>e. - snd e) m))" by simp
  then have "sorted (take 10 (map (\<lambda>e. - snd e) (sort_key (\<lambda>e. - snd e) m)))"
    by (simp add: sorted_wrt_take)
  then show ?thesis
    by (simp add: descending_iff langEntries_def take_map o_def)
qed

lemma set_langEntries: "set (langEntries m) \<subseteq> set m"
  unfolding langEntries_def using set_take_subset [of 10 "sort_key (\<lambda>e. - snd e) m"] by simp

lemma langRows_names: "map name (langRows B m) = map (\<lambda>e. JString (fst e)) (langEntries m)"
  by (simp add: langRows_def Let_def case_prod_beta o_def)

lemma langRows_percent:
  "map percent (langRows B m) =
     map (\<lambda>e. snd e / langTotalSize (langEntries m) * 100) (langEntries m)"
  by (simp add: langRows_def Let_def case_prod_beta o_def)

lemma langRows_length: "length (langRows B m) \<le> 10"
  by (simp add: langRows_def Let_def langEntries_length)

lemma foldl_sum: "foldl (\<lambda>acc e. acc + snd e) (a::real) es = a + sum_list (map snd es)"
  by (induction es arbitrary: a) (simp_all add: add.assoc)

lemma langTotalSize_alt:
  "langTotalSize es = (if sum_list (map snd es) = 0 then 1 else sum_list (map snd es))"
  by (simp add: langTotalSize_def foldl_sum Let_def)

lemma langTotalSize_nonzero: "langTotalSize es \<noteq> 0"
  by (simp add: langTotalSize_alt)

lemma langTotalSize_pos:
  assumes "\<forall>e \<in> set es. 0 \<le> snd e"
  shows "0 < langTotalSize es"
proof -
  have "0 \<le> sum_list (map snd es)" using assms by (intro sum_list_nonneg) auto
  then show ?thesis by (simp add: langTotalSize_alt)
qed

lemma descending_map_mono:
  assumes "descending xs" and "\<And>a b. a \<ge> b \<Longrightarrow> f a \<ge> (f b :: real)"
  shows "descending (map f xs)"
  using assms unfolding descending_def sorted_wrt_map by (auto elim: sorted_wrt_mono_rel [rotated])

lemma langRows_percent_descending:
  assumes "\<forall>e \<in> set m. 0 \<le> snd e"
  shows "descending (map percent (langRows B m))"
proof -
  have "\<forall>e \<in> set (langEntries m). 0 \<le> snd e" using assms set_langEntries [of m] by auto
  then have pos: "0 < langTotalSize (langEntries m)" by (rule langTotalSize_pos)
  have "descending (map (\<lambda>x. x / langTotalSize (langEntries m) * 100) (map snd (langEntries m)))"
    using langEntries_descending
  proof (rule descending_map_mono)
    fix a b :: real
    assume "a \<ge> b"
    then show "a / langTotalSize (langEntries m) * 100 \<ge> b / langTotalSize (langEntries m) * 100"
      using pos by (simp add: divide_right_mono)
  qed
  then show ?thesis by (simp add: langRows_percent o_def)
qed

lemma toRows_length: "length (toRows l k) = min k (length l)"
  by (simp add: toRows_def min.commute)

lemma toRows_percent: "map percent (toRows l k) = map (\<lambda>x. numOrZero (entryPercent x)) (take k l)"
  by (simp add: toRows_def o_def)

lemma toRows_names: "map name (toRows l k) = map entryName (take k l)"
  by (simp add: toRows_def o_def)

lemma toRows_seconds:
  "map seconds (toRows l k) = map (\<lambda>x. numOrZero (total_seconds x)) (take k l)"
  by (simp add: toRows_def o_def)





subsection \<open>Years and instants\<close>

lemma div_succ_le: "0 < c \<Longrightarrow> (x::int) div c \<le> (x + 1) div c"
  by (rule zdiv_mono1) simp_all

lemma div_succ_ge: "0 < c \<Longrightarrow> ((x::int) + 1) div c \<le> x div c + 1"
proof -
  assume c: "0 < c"
  then have "(x + 1) div c \<le> (x + c) div c"
    by (intro zdiv_mono1) simp_all
  also have "\<dots> = x div c + 1"
    using c by simp
  finally show ?thesis .
qed

lemma DayFromYear_less: "DayFromYear y < DayFromYear (y + 1)"
proof -
  have a: "(y - 1969) div 4 \<le> (y - 1969 + 1) div 4" by (rule div_succ_le) simp
  have b: "(y - 1901 + 1) div 100 \<le> (y - 1901) div 100 + 1" by (rule div_succ_ge) simp
  have c: "(y - 1601) div 400 \<le> (y - 1601 + 1) div 400" by (rule div_succ_le) simp
  have e: "y + 1 - 1969 = y - 1969 + 1" "y + 1 - 1901 = y - 1901 + 1" "y + 1 - 1601 = y - 1601 + 1"
    by simp_all
  have lin: "\<And>p p' q q' r r' :: int. p \<le> p' \<Longrightarrow> q' \<le> q + 1 \<Longrightarrow> r \<le> r' \<Longrightarrow>
      365 * (y - 1970) + p - q + r < 365 * (y + 1 - 1970) + p' - q' + r'"
    by simp
  show ?thesis
    unfolding DayFromYear_def e by (rule lin [OF a b c])
qed

lemma TimeFromYear_less: "TimeFromYear y < TimeFromYear (y + 1)"
  using DayFromYear_less [of y] by (simp add: TimeFromYear_def msPerDay_def)

lemma TimeFromYear_mono_less: "a < b \<Longrightarrow> TimeFromYear a < TimeFromYear b"
proof (induction "nat (b - a)" arbitrary: b)
  case 0
  then show ?case by simp
next
  case (Suc k)
  show ?case
  proof (cases "b - 1 = a")
    case True
    then have "b = a + 1" by simp
    then show ?thesis using TimeFromYear_less [of a] by simp
  next
    case False
    then have "a < b - 1" using Suc.prems by simp
    moreover have "k = nat (b - 1 - a)" using Suc.hyps(2) by simp
    ultimately have "TimeFromYear a < TimeFromYear (b - 1)" using Suc.hyps(1) by blast
    then show ?thesis using TimeFromYear_less [of "b - 1"] by simp
  qed
qed

lemma TimeFromYear_mono: "a \<le> b \<Longrightarrow> TimeFromYear a \<le> TimeFromYear b"
  using TimeFromYear_mono_less [of a b] by (cases "a = b") auto

lemma yearUp_spec:
  "TimeFromYear y \<le> t \<Longrightarrow>
     TimeFromYear (yearUp y t) \<le> t \<and> t < TimeFromYear (yearUp y t + 1)"
proof (induction y t rule: yearUp.induct)
  case (1 y t)
  show ?case
  proof (cases "TimeFromYear (y + 1) \<le> t")
    case True
    then show ?thesis using "1.IH" by (subst (1 2) yearUp.simps) simp
  next
    case False
    then show ?thesis using "1.prems" by (subst (1 2) yearUp.simps) simp
  qed
qed

lemma yearDown_spec:
  "t < TimeFromYear (y + 1) \<Longrightarrow>
     TimeFromYear (yearDown y t) \<le> t \<and> t < TimeFromYear (yearDown y t + 1)"
proof (induction y t rule: yearDown.induct)
  case (1 y t)
  show ?case
  proof (cases "t < TimeFromYear y")
    case True
    then show ?thesis using "1.IH" by (subst (1 2) yearDown.simps) simp
  next
    case False
    then show ?thesis using "1.prems" by (subst (1 2) yearDown.simps) simp
  qed
qed

lemma getUTCFullYear_spec:
  "TimeFromYear (getUTCFullYear t) \<le> t \<and> t < TimeFromYear (getUTCFullYear t + 1)"
proof (cases "TimeFromYear 1970 \<le> t")
  case True
  then show ?thesis using yearUp_spec [of 1970 t] by (simp add: getUTCFullYear_def)
next
  case False
  then have "t < TimeFromYear (1969 + 1)" by simp
  then show ?thesis using False yearDown_spec [of t 1969] by (simp add: getUTCFullYear_def)
qed

lemma getUTCFullYear_unique:
  assumes "TimeFromYear y \<le> t" "t < TimeFromYear (y + 1)"
  shows "getUTCFullYear t = y"
proof (rule ccontr)
  let ?g = "getUTCFullYear t"
  assume ne: "?g \<noteq> y"
  note g = getUTCFullYear_spec [of t]
  show False
  proof (cases "?g < y")
    case True
    then have "TimeFromYear (?g + 1) \<le> TimeFromYear y" by (intro TimeFromYear_mono) simp
    then show False using g assms by simp
  next
    case False
    then have "y + 1 \<le> ?g" using ne by simp
    then have "TimeFromYear (y + 1) \<le> TimeFromYear ?g" by (rule TimeFromYear_mono)
    then show False using g assms by simp
  qed
qed

lemma endYear_ge: "TimeFromYear FROM_YEAR \<le> now \<Longrightarrow> FROM_YEAR \<le> getUTCFullYear now"
proof (rule ccontr)
  assume a: "TimeFromYear FROM_YEAR \<le> now" and "\<not> FROM_YEAR \<le> getUTCFullYear now"
  then have "getUTCFullYear now + 1 \<le> FROM_YEAR" by simp
  then have "TimeFromYear (getUTCFullYear now + 1) \<le> TimeFromYear FROM_YEAR"
    by (rule TimeFromYear_mono)
  then show False using getUTCFullYear_spec [of now] a by simp
qed

lemma contribLoop_eq:
  assumes "\<forall>k \<in> {y..endYear}.
     query (fst (windowOf now endYear k)) (snd (windowOf now endYear k)) \<noteq> None"
  shows "contribLoop query now endYear y acc =
     Some (foldl addContrib acc
       (map (\<lambda>k. the (query (fst (windowOf now endYear k)) (snd (windowOf now endYear k))))
          [y..endYear]))"
  using assms
proof (induction query now endYear y acc rule: contribLoop.induct)
  case (1 query now endYear y acc)
  show ?case
  proof (cases "y \<le> endYear")
    case True
    then obtain c where
      c: "query (fst (windowOf now endYear y)) (snd (windowOf now endYear y)) = Some c"
      using "1.prems" by fastforce
    have rest: "\<forall>k \<in> {y + 1..endYear}.
        query (fst (windowOf now endYear k)) (snd (windowOf now endYear k)) \<noteq> None"
      using "1.prems" by simp
    have up: "[y..endYear] = y # [y + 1..endYear]" using True by (simp add: upto_rec1)
    show ?thesis
      using "1.IH" [OF True c rest] True c by (subst contribLoop.simps) (simp add: up)
  next
    case False
    then show ?thesis by (subst contribLoop.simps) simp
  qed
qed

lemma foldl_addContrib:
  "foldl addContrib acc cs =
     \<lparr> commits = commits acc + sum_list (map (\<lambda>c. numOrZero (totalCommitContributions c)) cs),
       prs = prs acc + sum_list (map (\<lambda>c. numOrZero (totalPullRequestContributions c)) cs),
       issues = issues acc + sum_list (map (\<lambda>c. numOrZero (totalIssueContributions c)) cs),
       reviews = reviews acc +
         sum_list (map (\<lambda>c. numOrZero (totalPullRequestReviewContributions c)) cs) \<rparr>"
  by (induction cs arbitrary: acc) (simp_all add: addContrib_def add.assoc)

lemma fetch_sum:
  assumes "\<forall>w \<in> set (windows now). query (fst w) (snd w) \<noteq> None"
  shows "fetchContribSince2021 query now =
     Some \<lparr> commits = sumOver query totalCommitContributions (windows now),
            prs = sumOver query totalPullRequestContributions (windows now),
            issues = sumOver query totalIssueContributions (windows now),
            reviews = sumOver query totalPullRequestReviewContributions (windows now) \<rparr>"
proof -
  let ?e = "getUTCFullYear now"
  have "\<forall>k \<in> {FROM_YEAR..?e}.
      query (fst (windowOf now ?e k)) (snd (windowOf now ?e k)) \<noteq> None"
    using assms by (simp add: windows_def)
  then show ?thesis
    unfolding fetchContribSince2021_def Let_def
    by (subst contribLoop_eq)
      (simp_all add: foldl_addContrib sumOver_def windows_def o_def case_prod_beta)
qed

lemma length_windows: "length (windows now) = nat (getUTCFullYear now - FROM_YEAR + 1)"
  by (simp add: windows_def)

lemma nth_windows:
  "i < length (windows now) \<Longrightarrow>
     windows now ! i = windowOf now (getUTCFullYear now) (FROM_YEAR + int i)"
  by (simp add: windows_def)

lemma windows_inner:
  assumes "Suc i < length (windows now)"
  shows "windows now ! i =
    (TimeFromYear (FROM_YEAR + int i), TimeFromYear (FROM_YEAR + int i + 1))"
proof -
  have "FROM_YEAR + int i \<noteq> getUTCFullYear now"
    using assms by (simp add: length_windows)
  then show ?thesis using assms by (simp add: nth_windows windowOf_def)
qed

lemma windows_fst:
  "i < length (windows now) \<Longrightarrow> fst (windows now ! i) = TimeFromYear (FROM_YEAR + int i)"
  by (simp add: nth_windows windowOf_def)

lemma windows_last:
  assumes "TimeFromYear FROM_YEAR \<le> now"
  shows "windows now \<noteq> [] \<and> last (windows now) = (TimeFromYear (getUTCFullYear now), now)"
proof -
  have ge: "FROM_YEAR \<le> getUTCFullYear now" using assms by (rule endYear_ge)
  then have ne: "windows now \<noteq> []"
    by (simp add: windows_def)
  then have "last (windows now) = windows now ! (length (windows now) - 1)"
    by (rule last_conv_nth)
  also have "\<dots> = windowOf now (getUTCFullYear now) (FROM_YEAR + int (length (windows now) - 1))"
    using ne by (intro nth_windows) simp
  also have "FROM_YEAR + int (length (windows now) - 1) = getUTCFullYear now"
    using ge by (simp add: length_windows)
  finally show ?thesis using ne by (simp add: windowOf_def)
qed

subsection \<open>The grade\<close>








section \<open>The claims\<close>








text \<open>
  Claim C5, as amended. The language rows are the entries of the mapping in descending
  order of size, cut to the first ten; with sizes that are not negative their percents
  descend too. \<^verbatim>\<open>toRows\<close> keeps the first \<open>limit\<close> entries of its list in the order given
  (ten at every call), so it has at most ten rows, and it does not sort: the claim as
  stated fails on a list whose entries ascend.
\<close>

theorem toRows_unsorted_counterexample:
  "map seconds (toRows twoEntries 10) = [1, 2] \<and>
   map percent (toRows twoEntries 10) = [33.33, 66.67] \<and>
   \<not> descending (map seconds (toRows twoEntries 10)) \<and>
   \<not> descending (map percent (toRows twoEntries 10))"
  by code_simp

theorem rows_sorted_and_limited:
  "length (langRows B m) \<le> 10 \<and>
   descending (map snd (langEntries m)) \<and>
   map name (langRows B m) = map (\<lambda>e. JString (fst e)) (langEntries m) \<and>
   ((\<forall>e \<in> set m. 0 \<le> snd e) \<longrightarrow> descending (map percent (langRows B m))) \<and>
   length (toRows l k) = min k (length l) \<and>
   length (toRows l 10) \<le> 10 \<and>
   map name (toRows l k) = map entryName (take k l) \<and>
   map seconds (toRows l k) = map (\<lambda>x. numOrZero (total_seconds x)) (take k l) \<and>
   map percent (toRows l k) = map (\<lambda>x. numOrZero (entryPercent x)) (take k l)"
  using langRows_length [of B m] langEntries_descending [of m] langRows_names [of B m]
    langRows_percent_descending [of m B] toRows_length toRows_names toRows_seconds toRows_percent
  by simp

theorem rows_sorted_and_limited_witness:
  "list_all (\<lambda>e. 0 \<le> snd e) scenarioC \<and>
   descending (map percent (langRows refBuiltins scenarioC)) \<and>
   map name (langRows refBuiltins scenarioC) = [JString ''A'', JString ''B'', JString ''C''] \<and>
   length (langRows refBuiltins elevenLangs) = 10 \<and>
   map name (toRows twoEntries 1) = [JString ''Go'']"
proof -
  note T = rows_sorted_and_limited [of refBuiltins scenarioC twoEntries 1]
  have nn: "\<forall>e \<in> set scenarioC. 0 \<le> snd e" by (simp add: scenarioC_def)
  have c: "langEntries scenarioC = [(''A'', 300), (''B'', 100), (''C'', 0)]"
    by (simp add: langEntries_def scenarioC_def)
  have 1: "descending (map percent (langRows refBuiltins scenarioC))"
    using T [THEN conjunct2, THEN conjunct2, THEN conjunct2, THEN conjunct1] nn by (rule mp)
  have 2: "map name (langRows refBuiltins scenarioC) = [JString ''A'', JString ''B'', JString ''C'']"
    unfolding T [THEN conjunct2, THEN conjunct2, THEN conjunct1] c by simp
  have 3: "map name (toRows twoEntries 1) = [JString ''Go'']"
    unfolding T [THEN conjunct2, THEN conjunct2, THEN conjunct2, THEN conjunct2, THEN conjunct2,
        THEN conjunct2, THEN conjunct1]
    by (simp add: twoEntries_def)
  have 4: "length (langRows refBuiltins elevenLangs) = 10"
    by (simp add: langRows_def Let_def langEntries_def elevenLangs_def)
  have nn': "list_all (\<lambda>e. 0 \<le> snd e) scenarioC"
    using nn by (simp add: list_all_iff)
  show ?thesis using nn' 1 2 3 4 by (intro conjI)
qed





text \<open>
  Claim C8. When the current instant is not before \<open>2021-01-01T00:00:00Z\<close> and every
  request is answered, the windows that \<^verbatim>\<open>fetchContribSince2021\<close> queries start at that
  instant and end at \<open>now\<close>; each window begins where the one before it ends; every
  window but the last runs from the start of a calendar year to the start of the next, and
  the last from the start of the current year to \<open>now\<close>, less than a year; a window ends
  no later than any later window begins. Each of the four signals returned is the sum of
  its counts over these windows (a missing count is \<open>0\<close>).
\<close>

theorem fetchContribSince2021_windows:
  assumes start: "TimeFromYear FROM_YEAR \<le> now"
    and answers: "\<forall>w \<in> set (windows now). query (fst w) (snd w) \<noteq> None"
  shows "windows now \<noteq> [] \<and>
    fst (hd (windows now)) = TimeFromYear FROM_YEAR \<and>
    TimeFromYear FROM_YEAR = 1609459200000 \<and>
    snd (last (windows now)) = now \<and>
    (\<forall>i. Suc i < length (windows now) \<longrightarrow>
       snd (windows now ! i) = fst (windows now ! Suc i)) \<and>
    (\<forall>i. Suc i < length (windows now) \<longrightarrow>
       (\<exists>y. windows now ! i = (TimeFromYear y, TimeFromYear (y + 1)))) \<and>
    (\<exists>y. last (windows now) = (TimeFromYear y, now) \<and>
       TimeFromYear y \<le> now \<and> now < TimeFromYear (y + 1)) \<and>
    (\<forall>i j. i < j \<and> j < length (windows now) \<longrightarrow>
       fst (windows now ! i) < snd (windows now ! i) \<and>
       snd (windows now ! i) \<le> fst (windows now ! j)) \<and>
    fetchContribSince2021 query now =
      Some \<lparr> commits = sumOver query totalCommitContributions (windows now),
             prs = sumOver query totalPullRequestContributions (windows now),
             issues = sumOver query totalIssueContributions (windows now),
             reviews = sumOver query totalPullRequestReviewContributions (windows now) \<rparr>"
proof -
  note l = windows_last [OF start]
  have ne: "windows now \<noteq> []" using l by simp
  have 1: "fst (hd (windows now)) = TimeFromYear FROM_YEAR"
    using ne windows_fst [of 0 now] by (simp add: hd_conv_nth)
  have 2: "TimeFromYear FROM_YEAR = 1609459200000"
    by (simp add: TimeFromYear_def DayFromYear_def FROM_YEAR_def msPerDay_def)
  have 3: "snd (last (windows now)) = now" using l by simp
  have 4: "snd (windows now ! i) = fst (windows now ! Suc i)" if "Suc i < length (windows now)" for i
    using that windows_inner [OF that] windows_fst [of "Suc i" now] by (simp add: algebra_simps)
  have 5: "\<exists>y. windows now ! i = (TimeFromYear y, TimeFromYear (y + 1))"
    if "Suc i < length (windows now)" for i
    using windows_inner [OF that] by blast
  have 6: "\<exists>y. last (windows now) = (TimeFromYear y, now) \<and>
       TimeFromYear y \<le> now \<and> now < TimeFromYear (y + 1)"
    using l getUTCFullYear_spec [of now] by blast
  have 7: "fst (windows now ! i) < snd (windows now ! i) \<and>
       snd (windows now ! i) \<le> fst (windows now ! j)"
    if "i < j \<and> j < length (windows now)" for i j
  proof -
    have s: "Suc i < length (windows now)" using that by simp
    have "FROM_YEAR + int i + 1 \<le> FROM_YEAR + int j" using that by simp
    then have "TimeFromYear (FROM_YEAR + int i + 1) \<le> TimeFromYear (FROM_YEAR + int j)"
      by (rule TimeFromYear_mono)
    then show ?thesis
      using that windows_inner [OF s] windows_fst [of j now] TimeFromYear_less [of "FROM_YEAR + int i"]
      by simp
  qed
  have adj: "\<forall>i. Suc i < length (windows now) \<longrightarrow>
       snd (windows now ! i) = fst (windows now ! Suc i)"
    using 4 by blast
  have yr: "\<forall>i. Suc i < length (windows now) \<longrightarrow>
       (\<exists>y. windows now ! i = (TimeFromYear y, TimeFromYear (y + 1)))"
    using 5 by blast
  have sep: "\<forall>i j. i < j \<and> j < length (windows now) \<longrightarrow>
       fst (windows now ! i) < snd (windows now ! i) \<and>
       snd (windows now ! i) \<le> fst (windows now ! j)"
    using 7 by blast
  note 8 = fetch_sum [OF answers]
  show ?thesis
    using ne 1 2 3 adj yr 6 sep 8 by (intro conjI)
qed

theorem fetchContribSince2021_windows_witness:
  "TimeFromYear FROM_YEAR \<le> 1700000000000 \<and>
   getUTCFullYear 1700000000000 = 2023 \<and>
   windows 1700000000000 =
     [(1609459200000, 1640995200000), (1640995200000, 1672531200000),
      (1672531200000, 1700000000000)] \<and>
   fetchContribSince2021 constQuery 1700000000000 =
     Some \<lparr> commits = 30, prs = 6, issues = 0, reviews = 0 \<rparr>"
proof -
  have start: "TimeFromYear FROM_YEAR \<le> 1700000000000"
    by (simp add: TimeFromYear_def DayFromYear_def FROM_YEAR_def msPerDay_def)
  have answers: "\<forall>w \<in> set (windows 1700000000000). constQuery (fst w) (snd w) \<noteq> None"
    by (simp add: constQuery_def)
  have y: "getUTCFullYear 1700000000000 = 2023"
    by (rule getUTCFullYear_unique)
      (simp_all add: TimeFromYear_def DayFromYear_def msPerDay_def)
  have ws: "windows 1700000000000 =
     [(1609459200000, 1640995200000), (1640995200000, 1672531200000),
      (1672531200000, 1700000000000)]"
    unfolding windows_def y
    by (simp add: FROM_YEAR_def upto.simps windowOf_def TimeFromYear_def DayFromYear_def msPerDay_def)
  note T = fetchContribSince2021_windows [OF start answers]
  have "fetchContribSince2021 constQuery 1700000000000 =
      Some \<lparr> commits = sumOver constQuery totalCommitContributions (windows 1700000000000),
             prs = sumOver constQuery totalPullRequestContributions (windows 1700000000000),
             issues = sumOver constQuery totalIssueContributions (windows 1700000000000),
             reviews = sumOver constQuery totalPullRequestReviewContributions (windows 1700000000000) \<rparr>"
    using T by (elim conjE)
  then have "fetchContribSince2021 constQuery 1700000000000 =
     Some \<lparr> commits = 30, prs = 6, issues = 0, reviews = 0 \<rparr>"
    unfolding ws by (simp add: sumOver_def constQuery_def)
  then show ?thesis using start y ws by (intro conjI)
qed




text \<open>
  Claim C10. The \<^verbatim>\<open>escapeXml\<close> of \<^verbatim>\<open>github-cards.mjs\<close> returns the empty string on
  \<^verbatim>\<open>null\<close> and on \<^verbatim>\<open>undefined\<close>: a missing text is embedded as the empty text, so a
  row or a card with missing text fields renders as the one with empty strings there.
\<close>

theorem escapeXml_missing_text:
  "escapeXml JNull = [] \<and> escapeXml JUndefined = [] \<and>
   escapeXml v = escapeXml (nullishEmpty v) \<and>
   barsRow B i (r\<lparr>name := JNull\<rparr>) = barsRow B i (r\<lparr>name := JString []\<rparr>) \<and>
   barsRow B i (r\<lparr>name := JUndefined\<rparr>) = barsRow B i (r\<lparr>name := JString []\<rparr>) \<and>
   renderBarsCard B JNull JUndefined JNull JUndefined rows =
     renderBarsCard B (JString []) (JString []) (JString []) (JString []) rows"
proof -
  have e: "escapeXml JNull = []" "escapeXml JUndefined = []" "escapeXml (JString []) = []"
    by (simp_all add: escapeXml_def)
  have n: "escapeXml v = escapeXml (nullishEmpty v)"
    by (cases v) (simp_all add: escapeXml_def)
  have r: "barsRow B i (r\<lparr>name := JNull\<rparr>) = barsRow B i (r\<lparr>name := JString []\<rparr>)"
    "barsRow B i (r\<lparr>name := JUndefined\<rparr>) = barsRow B i (r\<lparr>name := JString []\<rparr>)"
    by (simp_all add: barsRow_name e)
  have d: "renderBarsCard B JNull JUndefined JNull JUndefined rows =
     renderBarsCard B (JString []) (JString []) (JString []) (JString []) rows"
    by (simp add: renderBarsCard_def barsDocPieces_def e)
  show ?thesis using e n r d by simp
qed

end
